theory Spec2Isabelle
  imports Main
begin

section \<open>Python strings used by the pipeline\<close>

text \<open>
  A text is the list of the bytes of its UTF-8 encoding; the literals of the program are
  ASCII. The substring test, \<^verbatim>\<open>rstrip\<close> and \<^verbatim>\<open>replace\<close> with ASCII arguments act on the
  bytes as Python's act on the characters. \<^verbatim>\<open>str.upper\<close> and \<^verbatim>\<open>str.lower\<close> follow the
  Unicode case mappings of the Python runtime, which are not part of the repository:
  they are taken from the surroundings (\<open>str_upper\<close> and \<open>str_lower\<close> below).

  \<open>ascii_upper\<close> and \<open>ascii_lower\<close> are the case mappings on the ASCII letters; they
  leave every other byte as it is. On ASCII text Python's mappings agree with them, and
  the example surroundings use them.
\<close>

definition upper_char :: "char \<Rightarrow> char" where
  "upper_char c =
     (case map_of (zip ''abcdefghijklmnopqrstuvwxyz'' ''ABCDEFGHIJKLMNOPQRSTUVWXYZ'') c of
        Some u \<Rightarrow> u | None \<Rightarrow> c)"

definition lower_char :: "char \<Rightarrow> char" where
  "lower_char c =
     (case map_of (zip ''ABCDEFGHIJKLMNOPQRSTUVWXYZ'' ''abcdefghijklmnopqrstuvwxyz'') c of
        Some l \<Rightarrow> l | None \<Rightarrow> c)"

definition ascii_upper :: "string \<Rightarrow> string" where
  "ascii_upper s = map upper_char s"

definition ascii_lower :: "string \<Rightarrow> string" where
  "ascii_lower s = map lower_char s"

text \<open>
  \<^verbatim>\<open>s[:n]\<close>, the first \<open>n\<close> characters: a byte from \<open>0x80\<close> to \<open>0xBF\<close> continues the
  character before it.
\<close>

definition continuation :: "char \<Rightarrow> bool" where
  "continuation c = (128 \<le> (of_char c :: nat) \<and> (of_char c :: nat) < 192)"

fun take_chars :: "nat \<Rightarrow> string \<Rightarrow> string" where
  "take_chars n [] = []"
| "take_chars n (c # cs) =
     (if continuation c then c # take_chars n cs
      else (case n of 0 \<Rightarrow> [] | Suc m \<Rightarrow> c # take_chars m cs))"

text \<open>\<^verbatim>\<open>s.startswith(p)\<close> and the substring test \<^verbatim>\<open>p in s\<close>.\<close>

fun startswith :: "string \<Rightarrow> string \<Rightarrow> bool" where
  "startswith s [] = True"
| "startswith [] (p # ps) = False"
| "startswith (c # cs) (p # ps) = (c = p \<and> startswith cs ps)"

fun str_in :: "string \<Rightarrow> string \<Rightarrow> bool" where
  "str_in p [] = (p = [])"
| "str_in p (c # cs) = (startswith (c # cs) p \<or> str_in p cs)"

text \<open>\<^verbatim>\<open>s.rstrip(';')\<close> removes every trailing semicolon.\<close>

definition rstrip_semicolon :: "string \<Rightarrow> string" where
  "rstrip_semicolon s = rev (dropWhile (\<lambda>c. c = CHR '';'') (rev s))"

text \<open>\<^verbatim>\<open>s.replace(a, b)\<close> for single characters \<open>a\<close> and \<open>b\<close>.\<close>

definition replace_char :: "char \<Rightarrow> char \<Rightarrow> string \<Rightarrow> string" where
  "replace_char a b s = map (\<lambda>c. if c = a then b else c) s"

text \<open>The decimal text of an integer, as an f-string prints it.\<close>

definition digit_char :: "nat \<Rightarrow> char" where
  "digit_char d = ''0123456789'' ! (d mod 10)"

fun str_nat :: "nat \<Rightarrow> string" where
  "str_nat n = (if n < 10 then [digit_char n] else str_nat (n div 10) @ [digit_char (n mod 10)])"

declare str_nat.simps [simp del]

definition str_int :: "int \<Rightarrow> string" where
  "str_int i = (if i < 0 then CHR ''-'' # str_nat (nat (- i)) else str_nat (nat i))"

section \<open>Data model\<close>

datatype cell = CNull | CInt int | CStr string

text \<open>
  A pandas DataFrame: the column names and the rows in order. \<^verbatim>\<open>df.empty\<close> holds when
  either axis has length zero; \<^verbatim>\<open>len(df)\<close> is the number of rows.
\<close>

record dataframe =
  df_columns :: "string list"
  df_rows :: "cell list list"

definition DataFrame_new :: dataframe where
  "DataFrame_new = \<lparr>df_columns = [], df_rows = []\<rparr>"

definition df_empty :: "dataframe \<Rightarrow> bool" where
  "df_empty df = (df_columns df = [] \<or> df_rows df = [])"

definition df_len :: "dataframe \<Rightarrow> nat" where
  "df_len df = length (df_rows df)"

text \<open>
  Exceptions. \<open>Exception\<close> is the plain exception the pipeline itself raises with a
  message; the other constructors are the errors of the drivers and of indexing.
\<close>

datatype exn =
    Exception string
  | SnowflakeError string
  | DuckDBError string
  | IndexError string

fun str_exn :: "exn \<Rightarrow> string" where
  "str_exn (Exception m) = m"
| "str_exn (SnowflakeError m) = m"
| "str_exn (DuckDBError m) = m"
| "str_exn (IndexError m) = m"

datatype level = INFO | WARNING | ERROR

text \<open>
  A session handle. \<open>CloseFailed\<close> is a handle whose \<^verbatim>\<open>close()\<close> was called and raised.
\<close>

datatype status = Opened | Closed | CloseFailed

record sf_session =
  sf_insecure_mode :: bool
  sf_status :: status

record duck_session =
  duck_path :: string
  duck_status :: status

text \<open>Every call the pipeline makes on a driver, in order.\<close>

datatype call =
    SfConnect bool
  | SfShowTables string
  | SfExecute string
  | SfClose
  | DuckConnect string
  | DuckExecute string
  | DuckRegister string
  | DuckUnregister string
  | DuckClose

text \<open>
  The state: the two attributes of the \<^verbatim>\<open>DataPipeline\<close> object, the tables of the local
  store file, the staging bindings registered on the current local session, the log and
  the driver calls made so far.
\<close>

record state =
  snowflake_conn :: "sf_session option"
  duckdb_conn :: "duck_session option"
  store :: "string \<rightharpoonup> dataframe"
  staged :: "string \<rightharpoonup> dataframe"
  logs :: "(level \<times> string) list"
  calls :: "call list"

text \<open>
  The surroundings the pipeline runs in: the case mappings of the Python runtime, the
  configuration, and what the warehouse and the drivers answer. \<open>None\<close> for a connect or close means that the call returns
  normally. \<open>duck_accepts\<close> says which names the local engine parses as a table
  identifier in the statements the loader sends.
\<close>

record env =
  str_upper :: "string \<Rightarrow> string"
  str_lower :: "string \<Rightarrow> string"
  SNOWFLAKE_DATABASE :: string
  SNOWFLAKE_SCHEMA :: string
  sf_connect_strict :: "exn option"
  sf_connect_relaxed :: "exn option"
  sf_show_tables :: "exn + string list list"
  sf_query :: "string \<Rightarrow> exn + dataframe"
  sf_close :: "exn option"
  duck_connect :: "exn option"
  duck_accepts :: "string \<Rightarrow> bool"
  duck_close :: "exn option"

definition DUCKDB_PATH :: string where
  "DUCKDB_PATH = ''local_data.duckdb''"

definition logger :: "level \<Rightarrow> string \<Rightarrow> state \<Rightarrow> state" where
  "logger l msg s = s\<lparr>logs := logs s @ [(l, msg)]\<rparr>"

definition called :: "call \<Rightarrow> state \<Rightarrow> state" where
  "called c s = s\<lparr>calls := calls s @ [c]\<rparr>"

text \<open>\<^verbatim>\<open>DataPipeline()\<close>: a new pipeline object over the same local store file.\<close>

definition DataPipeline_init :: "state \<Rightarrow> state" where
  "DataPipeline_init s = s\<lparr>snowflake_conn := None, duckdb_conn := None\<rparr>"

text \<open>Sequencing of steps that may raise: the first exception stops the sequence.\<close>

definition and_then ::
  "(exn + 'a) \<times> state \<Rightarrow> ('a \<Rightarrow> state \<Rightarrow> (exn + 'b) \<times> state) \<Rightarrow> (exn + 'b) \<times> state" where
  "and_then m f = (case m of (Inl e, s) \<Rightarrow> (Inl e, s) | (Inr x, s) \<Rightarrow> f x s)"

section \<open>ConnectionManager\<close>

text \<open>
  \<^verbatim>\<open>connect_snowflake\<close>: the inner \<^verbatim>\<open>try\<close> makes the strict attempt; its handler logs a
  warning and makes the attempt with \<^verbatim>\<open>insecure_mode\<close>; the outer handler catches the
  failure of that second attempt and returns \<^verbatim>\<open>False\<close>.
\<close>

definition connect_snowflake :: "env \<Rightarrow> state \<Rightarrow> bool \<times> state" where
  "connect_snowflake E s =
     (let s1 = called (SfConnect False) s in
      case sf_connect_strict E of
        None \<Rightarrow>
          (True, logger INFO ''Successfully connected to Snowflake with SSL verification''
             (s1\<lparr>snowflake_conn := Some \<lparr>sf_insecure_mode = False, sf_status = Opened\<rparr>\<rparr>))
      | Some ssl_error \<Rightarrow>
          (let s2 = logger WARNING (''SSL connection failed: '' @ str_exn ssl_error) s1;
               s3 = logger INFO ''Attempting connection with relaxed SSL settings...'' s2;
               s4 = called (SfConnect True) s3
           in case sf_connect_relaxed E of
                None \<Rightarrow>
                  (True, logger INFO ''Successfully connected to Snowflake with insecure mode''
                     (s4\<lparr>snowflake_conn := Some \<lparr>sf_insecure_mode = True, sf_status = Opened\<rparr>\<rparr>))
              | Some e \<Rightarrow>
                  (False, logger ERROR (''Failed to connect to Snowflake: '' @ str_exn e) s4)))"

definition connect_duckdb :: "env \<Rightarrow> state \<Rightarrow> bool \<times> state" where
  "connect_duckdb E s =
     (let s1 = called (DuckConnect DUCKDB_PATH) s in
      case duck_connect E of
        None \<Rightarrow>
          (True, logger INFO (''Successfully connected to DuckDB: '' @ DUCKDB_PATH)
             (s1\<lparr>duckdb_conn := Some \<lparr>duck_path = DUCKDB_PATH, duck_status = Opened\<rparr>,
                  staged := Map.empty\<rparr>))
      | Some e \<Rightarrow> (False, logger ERROR (''Failed to connect to DuckDB: '' @ str_exn e) s1))"

text \<open>
  \<^verbatim>\<open>cleanup\<close>: each handle that is set has \<^verbatim>\<open>close()\<close> called on it; an exception of
  \<^verbatim>\<open>close()\<close> is swallowed by the bare \<^verbatim>\<open>except\<close>, without a log line.
\<close>

definition cleanup_snowflake :: "env \<Rightarrow> state \<Rightarrow> state" where
  "cleanup_snowflake E s =
     (case snowflake_conn s of
        None \<Rightarrow> s
      | Some c \<Rightarrow>
          (let s1 = called SfClose s in
           case sf_close E of
             None \<Rightarrow> logger INFO ''Snowflake connection closed''
                       (s1\<lparr>snowflake_conn := Some (c\<lparr>sf_status := Closed\<rparr>)\<rparr>)
           | Some _ \<Rightarrow> s1\<lparr>snowflake_conn := Some (c\<lparr>sf_status := CloseFailed\<rparr>)\<rparr>))"

definition cleanup_duckdb :: "env \<Rightarrow> state \<Rightarrow> state" where
  "cleanup_duckdb E s =
     (case duckdb_conn s of
        None \<Rightarrow> s
      | Some c \<Rightarrow>
          (let s1 = called DuckClose s in
           case duck_close E of
             None \<Rightarrow> logger INFO ''DuckDB connection closed''
                       (s1\<lparr>duckdb_conn := Some (c\<lparr>duck_status := Closed\<rparr>)\<rparr>)
           | Some _ \<Rightarrow> s1\<lparr>duckdb_conn := Some (c\<lparr>duck_status := CloseFailed\<rparr>)\<rparr>))"

definition cleanup :: "env \<Rightarrow> state \<Rightarrow> state" where
  "cleanup E s = cleanup_duckdb E (cleanup_snowflake E s)"

section \<open>Table discovery\<close>

text \<open>\<^verbatim>\<open>row[1]\<close> raises IndexError on a row with fewer than two fields.\<close>

definition row_second :: "string list \<Rightarrow> exn + string" where
  "row_second row =
     (case row of
        _ # name # _ \<Rightarrow> Inr name
      | _ \<Rightarrow> Inl (IndexError ''tuple index out of range''))"

fun table_names :: "string list list \<Rightarrow> exn + string list" where
  "table_names [] = Inr []"
| "table_names (row # fetched) =
     (case row_second row of
        Inl e \<Rightarrow> Inl e
      | Inr name \<Rightarrow>
          (case table_names fetched of Inl e \<Rightarrow> Inl e | Inr names \<Rightarrow> Inr (name # names)))"

definition get_snowflake_tables_try :: "env \<Rightarrow> state \<Rightarrow> (exn + string list) \<times> state" where
  "get_snowflake_tables_try E s =
     (case snowflake_conn s of
        None \<Rightarrow> (Inl (Exception ''Snowflake connection not established''), s)
      | Some _ \<Rightarrow>
          (let s1 = called (SfShowTables (''SHOW TABLES IN SCHEMA '' @ SNOWFLAKE_DATABASE E
                                @ ''.'' @ SNOWFLAKE_SCHEMA E)) s
           in case sf_show_tables E of
                Inl e \<Rightarrow> (Inl e, s1)
              | Inr fetched \<Rightarrow>
                  (case table_names fetched of
                     Inl e \<Rightarrow> (Inl e, s1)
                   | Inr tables \<Rightarrow>
                       (Inr tables,
                        logger INFO (''Found '' @ str_nat (length tables)
                                     @ '' tables in Snowflake'') s1))))"

definition get_snowflake_tables :: "env \<Rightarrow> state \<Rightarrow> string list \<times> state" where
  "get_snowflake_tables E s =
     (case get_snowflake_tables_try E s of
        (Inr tables, s') \<Rightarrow> (tables, s')
      | (Inl e, s') \<Rightarrow> ([], logger ERROR (''Failed to get table list: '' @ str_exn e) s'))"

section \<open>Extractor\<close>

text \<open>Lines 90 and 91: the text that is sent for a query and a limit.\<close>

definition with_limit :: "env \<Rightarrow> string \<Rightarrow> int \<Rightarrow> string" where
  "with_limit E query limit =
     (if \<not> str_in ''LIMIT'' (str_upper E query)
      then rstrip_semicolon query @ '' LIMIT '' @ str_int limit
      else query)"

text \<open>
  The rows fetched through the DictCursor are keyed by the cursor's column names, so
  \<^verbatim>\<open>pd.DataFrame(results)\<close> has these columns and these rows; \<^verbatim>\<open>not results\<close> holds when no
  row was fetched.
\<close>

definition read_snowflake_data_try ::
  "env \<Rightarrow> string \<Rightarrow> int \<Rightarrow> state \<Rightarrow> (exn + dataframe) \<times> state" where
  "read_snowflake_data_try E query limit s =
     (case snowflake_conn s of
        None \<Rightarrow> (Inl (Exception ''Snowflake connection not established''), s)
      | Some _ \<Rightarrow>
          (let query' = with_limit E query limit;
               s1 = logger INFO (''Executing query: '' @ take_chars 100 query' @ ''...'') s;
               s2 = called (SfExecute query') s1
           in case sf_query E query' of
                Inl e \<Rightarrow> (Inl e, s2)
              | Inr results \<Rightarrow>
                  (if df_rows results = []
                   then (Inr DataFrame_new, logger WARNING ''Query returned no results'' s2)
                   else (Inr results,
                         logger INFO (''Successfully read '' @ str_nat (df_len results)
                                      @ '' rows with '' @ str_nat (length (df_columns results))
                                      @ '' columns from Snowflake'') s2))))"

definition read_snowflake_data ::
  "env \<Rightarrow> string \<Rightarrow> int \<Rightarrow> state \<Rightarrow> (exn + dataframe) \<times> state" where
  "read_snowflake_data E query limit s =
     (case read_snowflake_data_try E query limit s of
        (Inl e, s') \<Rightarrow> (Inl e, logger ERROR (''Failed to read from Snowflake: '' @ str_exn e) s')
      | (Inr df, s') \<Rightarrow> (Inr df, s'))"

section \<open>Local store engine\<close>

text \<open>
  What the statements of the loader do on the local store. A statement built from a
  name the engine does not accept raises and changes nothing. A relation name is looked
  up among the staging bindings of the session first, then among the tables of the store.
\<close>

definition duck_relation :: "state \<Rightarrow> string \<Rightarrow> dataframe option" where
  "duck_relation s name = (case staged s name of Some df \<Rightarrow> Some df | None \<Rightarrow> store s name)"

definition duck_drop_table_if_exists :: "env \<Rightarrow> string \<Rightarrow> state \<Rightarrow> (exn + unit) \<times> state" where
  "duck_drop_table_if_exists E name s =
     (let s1 = called (DuckExecute (''DROP TABLE IF EXISTS '' @ name)) s in
      if duck_accepts E name
      then (Inr (), s1\<lparr>store := (store s1)(name := None)\<rparr>)
      else (Inl (DuckDBError (''Parser Error: '' @ name)), s1))"

definition duck_register :: "string \<Rightarrow> dataframe \<Rightarrow> state \<Rightarrow> (exn + unit) \<times> state" where
  "duck_register view df s =
     (let s1 = called (DuckRegister view) s in
      (Inr (), s1\<lparr>staged := (staged s1)(view \<mapsto> df)\<rparr>))"

definition duck_create_table_as ::
  "env \<Rightarrow> string \<Rightarrow> string \<Rightarrow> state \<Rightarrow> (exn + unit) \<times> state" where
  "duck_create_table_as E name src s =
     (let s1 = called (DuckExecute (''CREATE TABLE '' @ name @ '' AS SELECT * FROM '' @ src)) s in
      if \<not> duck_accepts E name then (Inl (DuckDBError (''Parser Error: '' @ name)), s1)
      else if store s1 name \<noteq> None
      then (Inl (DuckDBError (''Catalog Error: Table already exists: '' @ name)), s1)
      else (case duck_relation s1 src of
              None \<Rightarrow> (Inl (DuckDBError (''Catalog Error: Table does not exist: '' @ src)), s1)
            | Some df \<Rightarrow> (Inr (), s1\<lparr>store := (store s1)(name \<mapsto> df)\<rparr>)))"

definition duck_unregister :: "string \<Rightarrow> state \<Rightarrow> (exn + unit) \<times> state" where
  "duck_unregister view s =
     (let s1 = called (DuckUnregister view) s in
      (Inr (), s1\<lparr>staged := (staged s1)(view := None)\<rparr>))"

definition duck_count :: "env \<Rightarrow> string \<Rightarrow> state \<Rightarrow> (exn + nat) \<times> state" where
  "duck_count E name s =
     (let s1 = called (DuckExecute (''SELECT COUNT(*) FROM '' @ name)) s in
      if \<not> duck_accepts E name then (Inl (DuckDBError (''Parser Error: '' @ name)), s1)
      else (case duck_relation s1 name of
              None \<Rightarrow> (Inl (DuckDBError (''Catalog Error: Table does not exist: '' @ name)), s1)
            | Some df \<Rightarrow> (Inr (df_len df), s1)))"

section \<open>Loader\<close>

definition clean_table_name :: "string \<Rightarrow> string" where
  "clean_table_name table_name =
     replace_char (CHR ''.'') (CHR ''_'')
       (replace_char (CHR '' '') (CHR ''_'')
          (replace_char (CHR ''-'') (CHR ''_'') table_name))"

definition write_to_duckdb_try ::
  "env \<Rightarrow> dataframe \<Rightarrow> string \<Rightarrow> state \<Rightarrow> (exn + bool) \<times> state" where
  "write_to_duckdb_try E df table_name s =
     (case duckdb_conn s of
        None \<Rightarrow> (Inl (Exception ''DuckDB connection not established''), s)
      | Some _ \<Rightarrow>
          (if df_empty df
           then (Inr False, logger WARNING ''DataFrame is empty, skipping write'' s)
           else
             (let name = clean_table_name table_name in
              and_then (duck_drop_table_if_exists E name s) (\<lambda>_ s1.
              and_then (duck_register (name @ ''_temp'') df s1) (\<lambda>_ s2.
              and_then (duck_create_table_as E name (name @ ''_temp'') s2) (\<lambda>_ s3.
              and_then (duck_unregister (name @ ''_temp'') s3) (\<lambda>_ s4.
              and_then (duck_count E name s4) (\<lambda>count s5.
                (Inr True,
                 logger INFO (''Successfully wrote '' @ str_nat count
                              @ '' rows to DuckDB table: '' @ name) s5)))))))))"

definition write_to_duckdb ::
  "env \<Rightarrow> dataframe \<Rightarrow> string \<Rightarrow> state \<Rightarrow> (exn + bool) \<times> state" where
  "write_to_duckdb E df table_name s =
     (case write_to_duckdb_try E df table_name s of
        (Inl e, s') \<Rightarrow> (Inl e, logger ERROR (''Failed to write to DuckDB: '' @ str_exn e) s')
      | (Inr ok, s') \<Rightarrow> (Inr ok, s'))"

section \<open>PipelineOrchestrator\<close>

text \<open>Truth value of an optional string argument: \<^verbatim>\<open>None\<close> and \<^verbatim>\<open>""\<close> are false.\<close>

definition truthy :: "string option \<Rightarrow> bool" where
  "truthy x = (case x of None \<Rightarrow> False | Some t \<Rightarrow> t \<noteq> [])"

definition text_of :: "string option \<Rightarrow> string" where
  "text_of x = (case x of None \<Rightarrow> [] | Some t \<Rightarrow> t)"

text \<open>
  Lines 161 to 176: the query and the local table name, from the custom query, else
  from the table name, else from the first table the discovery reports.
\<close>

definition determine_query ::
  "env \<Rightarrow> string option \<Rightarrow> string option \<Rightarrow> state \<Rightarrow> (exn + string \<times> string) \<times> state" where
  "determine_query E table_name custom_query s =
     (if truthy custom_query then (Inr (text_of custom_query, ''custom_query_result''), s)
      else if truthy table_name
      then (Inr (''SELECT * FROM '' @ text_of table_name, str_lower E (text_of table_name)), s)
      else
        (case get_snowflake_tables E s of
           ([], s1) \<Rightarrow> (Inl (Exception ''No tables found in Snowflake schema''), s1)
         | (first # _, s1) \<Rightarrow>
             (Inr (''SELECT * FROM '' @ first, str_lower E first),
              logger INFO (''Using first available table: '' @ first) s1)))"

text \<open>
  The body of the \<^verbatim>\<open>try\<close> of \<^verbatim>\<open>run_pipeline\<close>. \<^verbatim>\<open>read_snowflake_data\<close> returns a frame
  or raises, so \<^verbatim>\<open>df is None\<close> never holds and the test is \<^verbatim>\<open>df.empty\<close>.
\<close>

definition run_pipeline_try ::
  "env \<Rightarrow> string option \<Rightarrow> string option \<Rightarrow> int \<Rightarrow> state \<Rightarrow> (exn + dataframe option) \<times> state" where
  "run_pipeline_try E table_name custom_query limit s =
     (let s0 = logger INFO ''=== Starting Data Pipeline ==='' s in
      case connect_snowflake E s0 of
        (False, s1) \<Rightarrow> (Inl (Exception ''Could not connect to Snowflake''), s1)
      | (True, s1) \<Rightarrow>
     (case connect_duckdb E s1 of
        (False, s2) \<Rightarrow> (Inl (Exception ''Could not connect to DuckDB''), s2)
      | (True, s2) \<Rightarrow>
      and_then (determine_query E table_name custom_query s2) (\<lambda>(query, duckdb_table_name) s3.
      and_then (read_snowflake_data E query limit
                  (logger INFO ''Starting data extraction from Snowflake...'' s3)) (\<lambda>df s4.
        if df_empty df
        then (Inr None, logger WARNING ''No data retrieved from Snowflake'' s4)
        else
          and_then (write_to_duckdb E df duckdb_table_name
                      (logger INFO ''Starting data load to DuckDB...'' s4)) (\<lambda>success s5.
            if success
            then (Inr (Some df), logger INFO ''=== Pipeline completed successfully! ==='' s5)
            else (Inl (Exception ''Failed to write data to DuckDB''), s5))))))"

text \<open>
  \<^verbatim>\<open>run_pipeline\<close>: the handler logs the exception and raises it again; the \<^verbatim>\<open>finally\<close>
  block runs \<^verbatim>\<open>cleanup\<close> on every path.
\<close>

definition run_pipeline ::
  "env \<Rightarrow> string option \<Rightarrow> string option \<Rightarrow> int \<Rightarrow> state \<Rightarrow> (exn + dataframe option) \<times> state" where
  "run_pipeline E table_name custom_query limit s =
     (case run_pipeline_try E table_name custom_query limit s of
        (Inl e, s') \<Rightarrow> (Inl e, cleanup E (logger ERROR (''Pipeline failed: '' @ str_exn e) s'))
      | (Inr df, s') \<Rightarrow> (Inr df, cleanup E s'))"

section \<open>Summary of a run\<close>

text \<open>
  What a run does, written as functions of the surroundings and the arguments alone.
  They are not part of the program: the lemmas below prove that the program computes
  them, and the theorems about \<open>run_pipeline\<close> are derived from that.
\<close>

definition discovered :: "env \<Rightarrow> string list" where
  "discovered E =
     (case sf_show_tables E of
        Inl _ \<Rightarrow> []
      | Inr fetched \<Rightarrow> (case table_names fetched of Inl _ \<Rightarrow> [] | Inr tables \<Rightarrow> tables))"

definition resolved :: "env \<Rightarrow> string option \<Rightarrow> string option \<Rightarrow> exn + string \<times> string" where
  "resolved E table_name custom_query =
     (if truthy custom_query then Inr (text_of custom_query, ''custom_query_result'')
      else if truthy table_name
      then Inr (''SELECT * FROM '' @ text_of table_name, str_lower E (text_of table_name))
      else (case discovered E of
              [] \<Rightarrow> Inl (Exception ''No tables found in Snowflake schema'')
            | first # _ \<Rightarrow> Inr (''SELECT * FROM '' @ first, str_lower E first)))"

definition extracted :: "env \<Rightarrow> string \<Rightarrow> int \<Rightarrow> exn + dataframe" where
  "extracted E query limit =
     (case sf_query E (with_limit E query limit) of
        Inl e \<Rightarrow> Inl e
      | Inr results \<Rightarrow> Inr (if df_rows results = [] then DataFrame_new else results))"

definition run_result ::
  "env \<Rightarrow> string option \<Rightarrow> string option \<Rightarrow> int \<Rightarrow> exn + dataframe option" where
  "run_result E table_name custom_query limit =
     (if sf_connect_strict E \<noteq> None \<and> sf_connect_relaxed E \<noteq> None
      then Inl (Exception ''Could not connect to Snowflake'')
      else if duck_connect E \<noteq> None then Inl (Exception ''Could not connect to DuckDB'')
      else
        (case resolved E table_name custom_query of
           Inl e \<Rightarrow> Inl e
         | Inr (query, target) \<Rightarrow>
             (case extracted E query limit of
                Inl e \<Rightarrow> Inl e
              | Inr df \<Rightarrow>
                  if df_empty df then Inr None
                  else if duck_accepts E (clean_table_name target) then Inr (Some df)
                  else Inl (DuckDBError (''Parser Error: '' @ clean_table_name target)))))"

definition same_world :: "state \<Rightarrow> state \<Rightarrow> bool" where
  "same_world s s' =
     (snowflake_conn s' = snowflake_conn s \<and> duckdb_conn s' = duckdb_conn s
      \<and> store s' = store s \<and> staged s' = staged s)"

definition run_target :: "env \<Rightarrow> string option \<Rightarrow> string option \<Rightarrow> string" where
  "run_target E table_name custom_query =
     (case resolved E table_name custom_query of
        Inl _ \<Rightarrow> []
      | Inr (query, target) \<Rightarrow> clean_table_name target)"

definition run_store ::
  "env \<Rightarrow> string option \<Rightarrow> string option \<Rightarrow> int \<Rightarrow> (string \<rightharpoonup> dataframe) \<Rightarrow> (string \<rightharpoonup> dataframe)" where
  "run_store E table_name custom_query limit tables =
     (case run_result E table_name custom_query limit of
        Inr (Some df) \<Rightarrow> tables(run_target E table_name custom_query \<mapsto> df)
      | _ \<Rightarrow> tables)"

definition executed_queries :: "call list \<Rightarrow> string list" where
  "executed_queries cs = concat (map (\<lambda>c. case c of SfExecute q \<Rightarrow> [q] | _ \<Rightarrow> []) cs)"

definition local_statements :: "call list \<Rightarrow> string list" where
  "local_statements cs = concat (map (\<lambda>c. case c of DuckExecute q \<Rightarrow> [q] | _ \<Rightarrow> []) cs)"

definition run_queries :: "env \<Rightarrow> string option \<Rightarrow> string option \<Rightarrow> int \<Rightarrow> string list" where
  "run_queries E table_name custom_query limit =
     (if (sf_connect_strict E \<noteq> None \<and> sf_connect_relaxed E \<noteq> None) \<or> duck_connect E \<noteq> None
      then []
      else (case resolved E table_name custom_query of
              Inl _ \<Rightarrow> []
            | Inr (query, target) \<Rightarrow> [with_limit E query limit]))"

definition load_statements :: "env \<Rightarrow> string \<Rightarrow> string list" where
  "load_statements E name =
     (if duck_accepts E name
      then [''DROP TABLE IF EXISTS '' @ name,
            ''CREATE TABLE '' @ name @ '' AS SELECT * FROM '' @ name @ ''_temp'',
            ''SELECT COUNT(*) FROM '' @ name]
      else [''DROP TABLE IF EXISTS '' @ name])"

definition run_statements :: "env \<Rightarrow> string option \<Rightarrow> string option \<Rightarrow> int \<Rightarrow> string list" where
  "run_statements E table_name custom_query limit =
     (if (sf_connect_strict E \<noteq> None \<and> sf_connect_relaxed E \<noteq> None) \<or> duck_connect E \<noteq> None
      then []
      else (case resolved E table_name custom_query of
              Inl _ \<Rightarrow> []
            | Inr (query, target) \<Rightarrow>
                (case extracted E query limit of
                   Inl _ \<Rightarrow> []
                 | Inr df \<Rightarrow>
                     if df_empty df then [] else load_statements E (clean_table_name target))))"

section \<open>A row-limiting clause, as a reader of the query sees it\<close>

text \<open>
  The words of a text are its maximal runs of characters other than space, tabulator
  and line feed. A query has an explicit row-limiting clause when the keyword LIMIT is
  one of its words, in any letter case.
\<close>

fun words_from :: "string \<Rightarrow> string \<Rightarrow> string list" where
  "words_from w [] = (if w = [] then [] else [w])"
| "words_from w (c # cs) =
     (if c = CHR '' '' \<or> c = CHR 0x09 \<or> c = CHR 0x0A
      then (if w = [] then [] else [w]) @ words_from [] cs
      else words_from (w @ [c]) cs)"

definition spec_has_limit_clause :: "string \<Rightarrow> bool" where
  "spec_has_limit_clause query = (''LIMIT'' \<in> set (map ascii_upper (words_from [] query)))"

section \<open>Example surroundings\<close>

definition orders :: dataframe where
  "orders = \<lparr>df_columns = [''ID'', ''AMT''],
             df_rows = [[CInt 1, CInt 10], [CInt 2, CInt 20], [CInt 3, CInt 30]]\<rparr>"

definition two_rows :: dataframe where
  "two_rows = \<lparr>df_columns = [''ID''], df_rows = [[CInt 1], [CInt 2]]\<rparr>"

definition no_columns :: dataframe where
  "no_columns = \<lparr>df_columns = [], df_rows = [[]]\<rparr>"

definition no_rows :: dataframe where
  "no_rows = \<lparr>df_columns = [''ID'', ''AMT''], df_rows = []\<rparr>"

text \<open>
  A warehouse with the table ORDERS of three rows; the local engine accepts every
  non-empty name. The names and queries of the examples are ASCII text, on which the
  case mappings of Python are the ASCII ones.
\<close>

definition demo_env :: env where
  "demo_env =
     \<lparr>str_upper = ascii_upper, str_lower = ascii_lower,
      SNOWFLAKE_DATABASE = ''DEMO_DB'', SNOWFLAKE_SCHEMA = ''PUBLIC'',
      sf_connect_strict = None, sf_connect_relaxed = None,
      sf_show_tables = Inr [[''2024-01-01'', ''ORDERS'']],
      sf_query = (\<lambda>q. if q = ''SELECT * FROM ORDERS LIMIT 1000'' then Inr orders
                      else if q = ''SELECT * FROM EMPTY_T LIMIT 1000'' then Inr no_rows
                      else Inl (SnowflakeError ''SQL compilation error'')),
      sf_close = None, duck_connect = None, duck_accepts = (\<lambda>name. name \<noteq> []),
      duck_close = None\<rparr>"

definition fresh :: state where
  "fresh = \<lparr>snowflake_conn = None, duckdb_conn = None, store = Map.empty,
            staged = Map.empty, logs = [], calls = []\<rparr>"

definition opened :: state where
  "opened = fresh\<lparr>snowflake_conn := Some \<lparr>sf_insecure_mode = False, sf_status = Opened\<rparr>,
                  duckdb_conn := Some \<lparr>duck_path = DUCKDB_PATH, duck_status = Opened\<rparr>\<rparr>"


definition fallback_env :: env where
  "fallback_env =
     demo_env\<lparr>sf_connect_strict := Some (SnowflakeError ''certificate verify failed'')\<rparr>"

definition empty_schema_env :: env where
  "empty_schema_env = demo_env\<lparr>sf_show_tables := Inr []\<rparr>"

definition broken_discovery_env :: env where
  "broken_discovery_env =
     demo_env\<lparr>sf_show_tables := Inl (SnowflakeError ''Insufficient privileges'')\<rparr>"


section \<open>The program computes the summary\<close>

lemma same_world_refl: "same_world s s"
  by (simp add: same_world_def)

lemma same_world_logger: "same_world s (logger l m s)"
  by (simp add: same_world_def logger_def)

lemma same_world_called: "same_world s (called c s)"
  by (simp add: same_world_def called_def)

lemma connect_snowflake_ok:
  "connect_snowflake E s = (ok, s1) \<Longrightarrow>
     ok = (sf_connect_strict E = None \<or> sf_connect_relaxed E = None)
     \<and> (ok \<longrightarrow> snowflake_conn s1 \<noteq> None)
     \<and> (\<not> ok \<longrightarrow> snowflake_conn s1 = snowflake_conn s)
     \<and> duckdb_conn s1 = duckdb_conn s \<and> store s1 = store s \<and> staged s1 = staged s"
  by (auto simp: connect_snowflake_def logger_def called_def Let_def split: option.splits)

lemma connect_duckdb_ok:
  "connect_duckdb E s = (ok, s1) \<Longrightarrow>
     ok = (duck_connect E = None)
     \<and> (ok \<longrightarrow> duckdb_conn s1 \<noteq> None \<and> staged s1 = Map.empty)
     \<and> (\<not> ok \<longrightarrow> duckdb_conn s1 = duckdb_conn s \<and> staged s1 = staged s)
     \<and> snowflake_conn s1 = snowflake_conn s \<and> store s1 = store s"
  by (auto simp: connect_duckdb_def logger_def called_def Let_def split: option.splits)

lemma get_snowflake_tables_eq:
  "get_snowflake_tables E s = (tables, s1) \<Longrightarrow>
     tables = (if snowflake_conn s = None then [] else discovered E) \<and> same_world s s1"
  by (auto simp: get_snowflake_tables_def get_snowflake_tables_try_def discovered_def
        same_world_def logger_def called_def Let_def
      split: option.splits sum.splits)

lemma determine_query_eq:
  "snowflake_conn s \<noteq> None \<Longrightarrow> determine_query E tn cq s = (r, s1) \<Longrightarrow>
     r = resolved E tn cq \<and> same_world s s1"
  apply (simp add: determine_query_def resolved_def split: if_splits)
    apply (simp add: same_world_def)
   apply (simp add: same_world_def)
  apply (cases "get_snowflake_tables E s")
  apply (frule get_snowflake_tables_eq)
  apply (auto simp: same_world_def logger_def split: list.splits)
  done

lemma read_snowflake_data_eq:
  "snowflake_conn s \<noteq> None \<Longrightarrow> read_snowflake_data E q lim s = (r, s1) \<Longrightarrow>
     r = extracted E q lim \<and> same_world s s1"
  by (auto simp: read_snowflake_data_def read_snowflake_data_try_def extracted_def
        same_world_def logger_def called_def Let_def
      split: option.splits sum.splits if_splits)

lemma write_to_duckdb_success:
  assumes "duckdb_conn s \<noteq> None" and "\<not> df_empty df"
    and "duck_accepts E (clean_table_name t)" and "staged s (clean_table_name t) = None"
  shows "write_to_duckdb E df t s =
     (Inr True,
      s\<lparr>store := (store s)(clean_table_name t \<mapsto> df),
        staged := (staged s)(clean_table_name t @ ''_temp'' := None),
        logs := logs s @ [(INFO, ''Successfully wrote '' @ str_nat (df_len df)
                                 @ '' rows to DuckDB table: '' @ clean_table_name t)],
        calls := calls s @
          [DuckExecute (''DROP TABLE IF EXISTS '' @ clean_table_name t),
           DuckRegister (clean_table_name t @ ''_temp''),
           DuckExecute (''CREATE TABLE '' @ clean_table_name t @ '' AS SELECT * FROM ''
                        @ clean_table_name t @ ''_temp''),
           DuckUnregister (clean_table_name t @ ''_temp''),
           DuckExecute (''SELECT COUNT(*) FROM '' @ clean_table_name t)]\<rparr>)"
  using assms
  by (auto simp: write_to_duckdb_def write_to_duckdb_try_def and_then_def Let_def
        duck_drop_table_if_exists_def duck_register_def duck_create_table_as_def
        duck_unregister_def duck_count_def duck_relation_def logger_def called_def)

lemma write_to_duckdb_rejected:
  assumes "duckdb_conn s \<noteq> None" and "\<not> df_empty df"
    and "\<not> duck_accepts E (clean_table_name t)"
  shows "write_to_duckdb E df t s =
     (Inl (DuckDBError (''Parser Error: '' @ clean_table_name t)),
      s\<lparr>logs := logs s @ [(ERROR, ''Failed to write to DuckDB: '' @ ''Parser Error: ''
                                  @ clean_table_name t)],
        calls := calls s @ [DuckExecute (''DROP TABLE IF EXISTS '' @ clean_table_name t)]\<rparr>)"
  using assms
  by (auto simp: write_to_duckdb_def write_to_duckdb_try_def and_then_def Let_def
        duck_drop_table_if_exists_def logger_def called_def)

lemma write_to_duckdb_empty:
  assumes "duckdb_conn s \<noteq> None" and "df_empty df"
  shows "write_to_duckdb E df t s =
     (Inr False, logger WARNING ''DataFrame is empty, skipping write'' s)"
  using assms
  by (auto simp: write_to_duckdb_def write_to_duckdb_try_def)

lemma write_to_duckdb_no_session:
  assumes "duckdb_conn s = None"
  shows "write_to_duckdb E df t s =
     (Inl (Exception ''DuckDB connection not established''),
      logger ERROR (''Failed to write to DuckDB: '' @ ''DuckDB connection not established'') s)"
  using assms
  by (auto simp: write_to_duckdb_def write_to_duckdb_try_def)

lemma executed_queries_append [simp]:
  "executed_queries (xs @ ys) = executed_queries xs @ executed_queries ys"
  by (simp add: executed_queries_def)

lemma local_statements_append [simp]:
  "local_statements (xs @ ys) = local_statements xs @ local_statements ys"
  by (simp add: local_statements_def)

lemma connect_snowflake_calls:
  "connect_snowflake E s = (ok, s1) \<Longrightarrow>
     executed_queries (calls s1) = executed_queries (calls s)
     \<and> local_statements (calls s1) = local_statements (calls s)"
  by (auto simp: connect_snowflake_def logger_def called_def Let_def executed_queries_def
        local_statements_def split: option.splits)

lemma connect_duckdb_calls:
  "connect_duckdb E s = (ok, s1) \<Longrightarrow>
     executed_queries (calls s1) = executed_queries (calls s)
     \<and> local_statements (calls s1) = local_statements (calls s)"
  by (auto simp: connect_duckdb_def logger_def called_def Let_def executed_queries_def
        local_statements_def split: option.splits)

lemma get_snowflake_tables_calls:
  "get_snowflake_tables E s = (tables, s1) \<Longrightarrow>
     executed_queries (calls s1) = executed_queries (calls s)
     \<and> local_statements (calls s1) = local_statements (calls s)"
  by (auto simp: get_snowflake_tables_def get_snowflake_tables_try_def logger_def called_def
        Let_def executed_queries_def local_statements_def split: option.splits sum.splits)

lemma determine_query_calls:
  "determine_query E tn cq s = (r, s1) \<Longrightarrow>
     executed_queries (calls s1) = executed_queries (calls s)
     \<and> local_statements (calls s1) = local_statements (calls s)"
  apply (simp add: determine_query_def split: if_splits)
  apply (cases "get_snowflake_tables E s")
  apply (frule get_snowflake_tables_calls)
  apply (auto simp: logger_def split: list.splits)
  done

lemma read_snowflake_data_calls:
  "snowflake_conn s \<noteq> None \<Longrightarrow> read_snowflake_data E q lim s = (r, s1) \<Longrightarrow>
     executed_queries (calls s1) = executed_queries (calls s) @ [with_limit E q lim]
     \<and> local_statements (calls s1) = local_statements (calls s)"
  by (auto simp: read_snowflake_data_def read_snowflake_data_try_def logger_def called_def
        Let_def executed_queries_def local_statements_def
      split: option.splits sum.splits if_splits)

lemma logger_fields [simp]:
  "snowflake_conn (logger l m s) = snowflake_conn s"
  "duckdb_conn (logger l m s) = duckdb_conn s"
  "store (logger l m s) = store s"
  "staged (logger l m s) = staged s"
  "calls (logger l m s) = calls s"
  "logs (logger l m s) = logs s @ [(l, m)]"
  by (simp_all add: logger_def)

text \<open>What the body of a run returns and leaves, from the surroundings alone.\<close>

lemma run_pipeline_try_eq:
  assumes run: "run_pipeline_try E tn cq lim s = (r, s1)"
  shows "r = run_result E tn cq lim
       \<and> store s1 = run_store E tn cq lim (store s)
       \<and> executed_queries (calls s1) = executed_queries (calls s) @ run_queries E tn cq lim
       \<and> local_statements (calls s1) = local_statements (calls s) @ run_statements E tn cq lim"
proof -
  let ?s0 = "logger INFO ''=== Starting Data Pipeline ==='' s"
  obtain ok1 sa where c1: "connect_snowflake E ?s0 = (ok1, sa)"
    by (cases "connect_snowflake E ?s0")
  note f1 = connect_snowflake_ok [OF c1]
  have cl_a: "executed_queries (calls sa) = executed_queries (calls s)"
    "local_statements (calls sa) = local_statements (calls s)"
    using connect_snowflake_calls [OF c1] by simp_all
  show ?thesis
  proof (cases ok1)
    case False
    with run c1 f1 cl_a show ?thesis
      by (auto simp: run_pipeline_try_def run_result_def run_store_def run_queries_def
            run_statements_def)
  next
    case ok1: True
    obtain ok2 sb where c2: "connect_duckdb E sa = (ok2, sb)"
      by (cases "connect_duckdb E sa")
    note f2 = connect_duckdb_ok [OF c2]
    have cl_b: "executed_queries (calls sb) = executed_queries (calls s)"
      "local_statements (calls sb) = local_statements (calls s)"
      using connect_duckdb_calls [OF c2] cl_a by simp_all
    show ?thesis
    proof (cases ok2)
      case False
      with run c1 c2 ok1 f1 f2 cl_b show ?thesis
        by (auto simp: run_pipeline_try_def run_result_def run_store_def run_queries_def
              run_statements_def)
    next
      case ok2: True
      have conn_b: "snowflake_conn sb \<noteq> None" using f1 f2 ok1 by simp
      have pre: "\<not> (sf_connect_strict E \<noteq> None \<and> sf_connect_relaxed E \<noteq> None)"
        "duck_connect E = None"
        using f1 f2 ok1 ok2 by auto
      obtain rd sc where d: "determine_query E tn cq sb = (rd, sc)"
        by (cases "determine_query E tn cq sb")
      from determine_query_eq [OF conn_b d]
      have rd: "resolved E tn cq = rd" and wc: "same_world sb sc" by simp_all
      have st_c: "store sc = store s" "staged sc = Map.empty" "duckdb_conn sc \<noteq> None"
        "snowflake_conn sc \<noteq> None"
        using wc f1 f2 ok2 conn_b by (simp_all add: same_world_def)
      have cl_c: "executed_queries (calls sc) = executed_queries (calls s)"
        "local_statements (calls sc) = local_statements (calls s)"
        using determine_query_calls [OF d] cl_b by simp_all
      show ?thesis
      proof (cases rd)
        case (Inl e)
        have "run_pipeline_try E tn cq lim s = (Inl e, sc)"
          using c1 c2 ok1 ok2 d Inl by (simp add: run_pipeline_try_def and_then_def)
        with run have "r = Inl e" "s1 = sc" by simp_all
        moreover have "run_result E tn cq lim = Inl e"
          using pre rd Inl by (auto simp: run_result_def)
        moreover have "run_queries E tn cq lim = []" "run_statements E tn cq lim = []"
          using pre rd Inl by (auto simp: run_queries_def run_statements_def)
        ultimately show ?thesis using st_c cl_c by (simp add: run_store_def)
      next
        case (Inr qt)
        obtain q tgt where qt: "qt = (q, tgt)" by (cases qt)
        have res: "resolved E tn cq = Inr (q, tgt)" using rd Inr qt by simp
        let ?sc = "logger INFO ''Starting data extraction from Snowflake...'' sc"
        have conn_c: "snowflake_conn ?sc \<noteq> None" using st_c by simp
        obtain rr sd where rd2: "read_snowflake_data E q lim ?sc = (rr, sd)"
          by (cases "read_snowflake_data E q lim ?sc")
        from read_snowflake_data_eq [OF conn_c rd2]
        have rr: "extracted E q lim = rr" and wd: "same_world ?sc sd" by simp_all
        have st_d: "store sd = store s" "staged sd = Map.empty" "duckdb_conn sd \<noteq> None"
          using wd st_c by (simp_all add: same_world_def)
        have cl_d: "executed_queries (calls sd) = executed_queries (calls s) @ [with_limit E q lim]"
          "local_statements (calls sd) = local_statements (calls s)"
          using read_snowflake_data_calls [OF conn_c rd2] cl_c by simp_all
        have rq: "run_queries E tn cq lim = [with_limit E q lim]"
          using pre res by (auto simp: run_queries_def)
        show ?thesis
        proof (cases rr)
          case (Inl e)
          have "run_pipeline_try E tn cq lim s = (Inl e, sd)"
            using c1 c2 ok1 ok2 d \<open>rd = Inr qt\<close> qt rd2 Inl
            by (simp add: run_pipeline_try_def and_then_def)
          with run have "r = Inl e" "s1 = sd" by simp_all
          moreover have "run_result E tn cq lim = Inl e"
            using pre res rr Inl by (auto simp: run_result_def)
          moreover have "run_statements E tn cq lim = []"
            using pre res rr Inl by (auto simp: run_statements_def)
          ultimately show ?thesis using st_d cl_d rq by (simp add: run_store_def)
        next
          case (Inr df)
          have ex: "extracted E q lim = Inr df" using rr Inr by simp
          let ?sd = "logger INFO ''Starting data load to DuckDB...'' sd"
          show ?thesis
          proof (cases "df_empty df")
            case True
            have "run_pipeline_try E tn cq lim s =
                (Inr None, logger WARNING ''No data retrieved from Snowflake'' sd)"
              using c1 c2 ok1 ok2 d \<open>rd = Inr qt\<close> qt rd2 Inr True
              by (simp add: run_pipeline_try_def and_then_def)
            with run have "r = Inr None"
              "s1 = logger WARNING ''No data retrieved from Snowflake'' sd" by simp_all
            moreover have "run_result E tn cq lim = Inr None"
              using pre res ex True by (auto simp: run_result_def)
            moreover have "run_statements E tn cq lim = []"
              using pre res ex True by (auto simp: run_statements_def)
            ultimately show ?thesis using st_d cl_d rq by (simp add: run_store_def)
          next
            case ne: False
            have sess: "duckdb_conn ?sd \<noteq> None" using st_d by simp
            show ?thesis
            proof (cases "duck_accepts E (clean_table_name tgt)")
              case True
              have free: "staged ?sd (clean_table_name tgt) = None" using st_d by simp
              obtain sw where w: "write_to_duckdb E df tgt ?sd = (Inr True, sw)"
                and sw: "store sw = (store s)(clean_table_name tgt \<mapsto> df)"
                and cw: "executed_queries (calls sw) = executed_queries (calls sd)"
                  "local_statements (calls sw) =
                     local_statements (calls sd) @ load_statements E (clean_table_name tgt)"
                using write_to_duckdb_success [OF sess ne True free] st_d True
                by (simp add: executed_queries_def local_statements_def load_statements_def)
              have "run_pipeline_try E tn cq lim s =
                  (Inr (Some df), logger INFO ''=== Pipeline completed successfully! ==='' sw)"
                using c1 c2 ok1 ok2 d \<open>rd = Inr qt\<close> qt rd2 Inr ne w
                by (simp add: run_pipeline_try_def and_then_def)
              with run have "r = Inr (Some df)"
                "s1 = logger INFO ''=== Pipeline completed successfully! ==='' sw" by simp_all
              moreover have "run_result E tn cq lim = Inr (Some df)"
                using pre res ex ne True by (auto simp: run_result_def)
              moreover have "run_statements E tn cq lim = load_statements E (clean_table_name tgt)"
                using pre res ex ne by (auto simp: run_statements_def)
              ultimately show ?thesis using sw cw res cl_d rq
                by (simp add: run_store_def run_target_def)
            next
              case False
              obtain sw where
                w: "write_to_duckdb E df tgt ?sd =
                      (Inl (DuckDBError (''Parser Error: '' @ clean_table_name tgt)), sw)"
                and sw: "store sw = store s"
                and cw: "executed_queries (calls sw) = executed_queries (calls sd)"
                  "local_statements (calls sw) =
                     local_statements (calls sd) @ load_statements E (clean_table_name tgt)"
                using write_to_duckdb_rejected [OF sess ne False] st_d False
                by (simp add: executed_queries_def local_statements_def load_statements_def)
              have "run_pipeline_try E tn cq lim s =
                  (Inl (DuckDBError (''Parser Error: '' @ clean_table_name tgt)), sw)"
                using c1 c2 ok1 ok2 d \<open>rd = Inr qt\<close> qt rd2 Inr ne w
                by (simp add: run_pipeline_try_def and_then_def)
              with run have "r = Inl (DuckDBError (''Parser Error: '' @ clean_table_name tgt))"
                "s1 = sw" by simp_all
              moreover have "run_result E tn cq lim =
                  Inl (DuckDBError (''Parser Error: '' @ clean_table_name tgt))"
                using pre res ex ne False by (auto simp: run_result_def)
              moreover have "run_statements E tn cq lim = load_statements E (clean_table_name tgt)"
                using pre res ex ne by (auto simp: run_statements_def)
              ultimately show ?thesis using sw cw cl_d rq by (simp add: run_store_def)
            qed
          qed
        qed
      qed
    qed
  qed
qed

lemma cleanup_world:
  "store (cleanup E s) = store s \<and> staged (cleanup E s) = staged s
   \<and> executed_queries (calls (cleanup E s)) = executed_queries (calls s)
   \<and> local_statements (calls (cleanup E s)) = local_statements (calls s)"
  by (auto simp: cleanup_def cleanup_snowflake_def cleanup_duckdb_def logger_def called_def
        Let_def executed_queries_def local_statements_def split: option.splits)





lemma run_pipeline_eq:
  "fst (run_pipeline E tn cq lim s) = run_result E tn cq lim
   \<and> store (snd (run_pipeline E tn cq lim s)) = run_store E tn cq lim (store s)
   \<and> executed_queries (calls (snd (run_pipeline E tn cq lim s))) =
       executed_queries (calls s) @ run_queries E tn cq lim
   \<and> local_statements (calls (snd (run_pipeline E tn cq lim s))) =
       local_statements (calls s) @ run_statements E tn cq lim"
proof -
  obtain r s1 where t: "run_pipeline_try E tn cq lim s = (r, s1)"
    by (cases "run_pipeline_try E tn cq lim s")
  note eq = run_pipeline_try_eq [OF t]
  show ?thesis
  proof (cases r)
    case (Inl e)
    then have "run_pipeline E tn cq lim s =
        (Inl e, cleanup E (logger ERROR (''Pipeline failed: '' @ str_exn e) s1))"
      using t by (simp add: run_pipeline_def)
    with eq Inl show ?thesis by (simp add: cleanup_world)
  next
    case (Inr df)
    then have "run_pipeline E tn cq lim s = (Inr df, cleanup E s1)"
      using t by (simp add: run_pipeline_def)
    with eq Inr show ?thesis by (simp add: cleanup_world)
  qed
qed

lemma startswith_iff: "startswith s p \<longleftrightarrow> (\<exists>post. s = p @ post)"
  by (induction s p rule: startswith.induct) auto

lemma str_in_iff: "str_in p s \<longleftrightarrow> (\<exists>pre post. s = pre @ p @ post)"
proof (induction s)
  case Nil
  then show ?case by auto
next
  case (Cons c cs)
  show ?case
  proof
    assume "str_in p (c # cs)"
    then consider "startswith (c # cs) p" | "str_in p cs" by auto
    then show "\<exists>pre post. c # cs = pre @ p @ post"
    proof cases
      case 1
      then obtain post where "c # cs = p @ post" by (auto simp: startswith_iff)
      then have "c # cs = [] @ p @ post" by simp
      then show ?thesis by blast
    next
      case 2
      then obtain pre post where "cs = pre @ p @ post" using Cons.IH by auto
      then have "c # cs = (c # pre) @ p @ post" by simp
      then show ?thesis by blast
    qed
  next
    assume "\<exists>pre post. c # cs = pre @ p @ post"
    then obtain pre post where eq: "c # cs = pre @ p @ post" by auto
    show "str_in p (c # cs)"
    proof (cases pre)
      case Nil
      with eq have "startswith (c # cs) p" by (auto simp: startswith_iff)
      then show ?thesis by simp
    next
      case (Cons a pre')
      with eq have "cs = pre' @ p @ post" by simp
      then have "str_in p cs" using Cons.IH by auto
      then show ?thesis by simp
    qed
  qed
qed

section \<open>Evaluation on the examples\<close>

lemmas summary_defs =
  run_result_def resolved_def discovered_def extracted_def run_store_def run_target_def
  run_queries_def run_statements_def load_statements_def truthy_def text_of_def

lemma demo_env_case:
  "str_upper demo_env = ascii_upper" "str_lower demo_env = ascii_lower"
  by (simp_all add: demo_env_def)

lemmas string_defs =
  demo_env_case
  with_limit_def ascii_upper_def upper_char_def ascii_lower_def lower_char_def rstrip_semicolon_def
  str_int_def str_nat.simps digit_char_def clean_table_name_def replace_char_def

lemma fresh_calls:
  "executed_queries (calls fresh) = []" "local_statements (calls fresh) = []"
  by (simp_all add: fresh_def executed_queries_def local_statements_def)


section \<open>Loader: the verified row count (C1)\<close>

text \<open>
  C1, as the code has it. On a session that is open, for a frame that is not empty (at
  least one row and at least one column), a target name the local engine accepts and
  that no staging binding of the session shadows, \<open>write_to_duckdb\<close> returns
  \<^verbatim>\<open>True\<close>; the target table holds exactly the rows of the frame; the statements are
  sent in the order drop, register, create, unregister, count, so that COUNT is queried
  after the table was created; the count that was queried is the number of rows of the
  frame and is written to the log; and reading COUNT on the target once more gives the
  same number. The value returned is the flag \<^verbatim>\<open>True\<close>, not the count.
\<close>

theorem write_to_duckdb_verified_count:
  assumes "duckdb_conn s = Some d" and "\<not> df_empty df"
    and "duck_accepts E (clean_table_name table_name)"
    and "staged s (clean_table_name table_name) = None"
  shows "fst (write_to_duckdb E df table_name s) = Inr True
       \<and> store (snd (write_to_duckdb E df table_name s)) (clean_table_name table_name) = Some df
       \<and> fst (duck_count E (clean_table_name table_name)
                (snd (write_to_duckdb E df table_name s))) = Inr (df_len df)
       \<and> last (logs (snd (write_to_duckdb E df table_name s))) =
           (INFO, ''Successfully wrote '' @ str_nat (df_len df) @ '' rows to DuckDB table: ''
                  @ clean_table_name table_name)
       \<and> calls (snd (write_to_duckdb E df table_name s)) = calls s @
           [DuckExecute (''DROP TABLE IF EXISTS '' @ clean_table_name table_name),
            DuckRegister (clean_table_name table_name @ ''_temp''),
            DuckExecute (''CREATE TABLE '' @ clean_table_name table_name
                         @ '' AS SELECT * FROM '' @ clean_table_name table_name @ ''_temp''),
            DuckUnregister (clean_table_name table_name @ ''_temp''),
            DuckExecute (''SELECT COUNT(*) FROM '' @ clean_table_name table_name)]"
proof -
  have sess: "duckdb_conn s \<noteq> None" using assms(1) by simp
  note w = write_to_duckdb_success [OF sess assms(2) assms(3) assms(4)]
  show ?thesis
    using assms(3) assms(4)
    by (simp add: w duck_count_def duck_relation_def called_def Let_def)
qed

text \<open>The theorem at the three rows of ORDERS and the table name \<^verbatim>\<open>My-Table.v2\<close>.\<close>

theorem write_to_duckdb_verified_count_witness:
  "duckdb_conn opened = Some \<lparr>duck_path = DUCKDB_PATH, duck_status = Opened\<rparr>
   \<and> \<not> df_empty orders
   \<and> duck_accepts demo_env (clean_table_name ''My-Table.v2'')
   \<and> staged opened (clean_table_name ''My-Table.v2'') = None
   \<and> fst (write_to_duckdb demo_env orders ''My-Table.v2'' opened) = Inr True
   \<and> store (snd (write_to_duckdb demo_env orders ''My-Table.v2'' opened)) ''My_Table_v2''
       = Some orders
   \<and> fst (duck_count demo_env ''My_Table_v2''
            (snd (write_to_duckdb demo_env orders ''My-Table.v2'' opened))) = Inr 3"
proof -
  have n: "clean_table_name ''My-Table.v2'' = ''My_Table_v2''"
    by (simp add: clean_table_name_def replace_char_def)
  have h1: "duckdb_conn opened = Some \<lparr>duck_path = DUCKDB_PATH, duck_status = Opened\<rparr>"
    by (simp add: opened_def fresh_def)
  have h2: "\<not> df_empty orders" by (simp add: df_empty_def orders_def)
  have h3: "duck_accepts demo_env (clean_table_name ''My-Table.v2'')"
    by (simp add: n demo_env_def)
  have h4: "staged opened (clean_table_name ''My-Table.v2'') = None"
    by (simp add: opened_def fresh_def)
  have l: "df_len orders = 3" by (simp add: df_len_def orders_def)
  show ?thesis
    using write_to_duckdb_verified_count [OF h1 h2 h3 h4] h1 h2 h3 h4
    by (simp add: n l)
qed

text \<open>
  C1 as stated fails. The value returned for a frame of two rows and for a frame of
  three rows is the same flag \<^verbatim>\<open>True\<close>, so the count is not what is returned. A frame
  of one row and no column counts as empty and is refused, and with a name the engine
  rejects (here the empty name) the first statement raises.
\<close>

theorem write_to_duckdb_count_not_returned:
  "fst (write_to_duckdb demo_env two_rows ''t'' opened) = Inr True
   \<and> fst (write_to_duckdb demo_env orders ''t'' opened) = Inr True
   \<and> df_len two_rows = 2 \<and> df_len orders = 3
   \<and> df_len no_columns = 1
   \<and> fst (write_to_duckdb demo_env no_columns ''t'' opened) = Inr False
   \<and> fst (write_to_duckdb demo_env orders '''' opened) = Inl (DuckDBError ''Parser Error: '')"
proof -
  have n: "clean_table_name ''t'' = ''t''" "clean_table_name '''' = ''''"
    by (simp_all add: clean_table_name_def replace_char_def)
  have sess: "duckdb_conn opened \<noteq> None" by (simp add: opened_def fresh_def)
  have st: "staged opened (clean_table_name ''t'') = None" by (simp add: opened_def fresh_def)
  have acc: "duck_accepts demo_env (clean_table_name ''t'')"
    "\<not> duck_accepts demo_env (clean_table_name '''')"
    by (simp_all add: n demo_env_def)
  have ne: "\<not> df_empty two_rows" "\<not> df_empty orders" "df_empty no_columns"
    by (simp_all add: df_empty_def two_rows_def orders_def no_columns_def)
  have "fst (write_to_duckdb demo_env two_rows ''t'' opened) = Inr True"
    by (simp add: write_to_duckdb_success [OF sess ne(1) acc(1) st])
  moreover have "fst (write_to_duckdb demo_env orders ''t'' opened) = Inr True"
    by (simp add: write_to_duckdb_success [OF sess ne(2) acc(1) st])
  moreover have "fst (write_to_duckdb demo_env no_columns ''t'' opened) = Inr False"
    by (simp add: write_to_duckdb_empty [OF sess ne(3)])
  moreover have "fst (write_to_duckdb demo_env orders '''' opened)
      = Inl (DuckDBError ''Parser Error: '')"
    by (simp add: write_to_duckdb_rejected [OF sess ne(2) acc(2)] n)
  moreover have "df_len two_rows = 2" "df_len orders = 3" "df_len no_columns = 1"
    by (simp_all add: df_len_def two_rows_def orders_def no_columns_def)
  ultimately show ?thesis by simp
qed

section \<open>Loader: a frame without rows (C2)\<close>

text \<open>
  C2. For every table name and every state, \<open>write_to_duckdb\<close> on a frame of zero rows
  does not report success: on an open session it returns \<^verbatim>\<open>False\<close>, and without a
  session it raises. In both cases the tables of the store, the staging bindings and
  the session are as before and no call reaches the local engine: nothing is dropped,
  created or replaced.
\<close>

theorem write_to_duckdb_zero_rows_untouched:
  assumes "df_rows df = []"
  shows "fst (write_to_duckdb E df table_name s) \<noteq> Inr True
       \<and> (duckdb_conn s \<noteq> None \<longrightarrow> fst (write_to_duckdb E df table_name s) = Inr False)
       \<and> store (snd (write_to_duckdb E df table_name s)) = store s
       \<and> staged (snd (write_to_duckdb E df table_name s)) = staged s
       \<and> duckdb_conn (snd (write_to_duckdb E df table_name s)) = duckdb_conn s
       \<and> calls (snd (write_to_duckdb E df table_name s)) = calls s"
proof (cases "duckdb_conn s = None")
  case True
  then show ?thesis by (simp add: write_to_duckdb_no_session)
next
  case False
  moreover have "df_empty df" using assms by (simp add: df_empty_def)
  ultimately show ?thesis by (simp add: write_to_duckdb_empty)
qed

text \<open>
  The theorem on a store that already holds the table \<^verbatim>\<open>orders\<close>: the table is still
  there after the refused write.
\<close>

theorem write_to_duckdb_zero_rows_untouched_witness:
  "df_rows no_rows = []
   \<and> duckdb_conn (opened\<lparr>store := [''orders'' \<mapsto> orders]\<rparr>) \<noteq> None
   \<and> fst (write_to_duckdb demo_env no_rows ''orders'' (opened\<lparr>store := [''orders'' \<mapsto> orders]\<rparr>))
       = Inr False
   \<and> store (snd (write_to_duckdb demo_env no_rows ''orders''
                   (opened\<lparr>store := [''orders'' \<mapsto> orders]\<rparr>))) ''orders'' = Some orders"
proof -
  have h: "df_rows no_rows = []" by (simp add: no_rows_def)
  have c: "duckdb_conn (opened\<lparr>store := [''orders'' \<mapsto> orders]\<rparr>) \<noteq> None"
    by (simp add: opened_def fresh_def)
  show ?thesis
    using write_to_duckdb_zero_rows_untouched
            [OF h, of demo_env "''orders''" "opened\<lparr>store := [''orders'' \<mapsto> orders]\<rparr>"] h c
    by simp
qed

section \<open>Orchestrator: cleanup on every path (C3)\<close>



section \<open>Orchestrator: which error reaches the caller (C4)\<close>




section \<open>Extractor: the row limit (C5)\<close>

text \<open>
  What the extractor sends. On an open session \<open>read_snowflake_data\<close> sends exactly one
  query: the given text unaltered when the upper-cased text contains the letters LIMIT
  anywhere, and otherwise the text without its trailing semicolons, followed by
  \<^verbatim>\<open> LIMIT \<close> and the limit in decimal.
\<close>

lemma read_snowflake_data_sends:
  assumes "snowflake_conn s = Some c"
  shows "calls (snd (read_snowflake_data E query limit s)) = calls s @
           [SfExecute (if (\<exists>pre post. str_upper E query = pre @ ''LIMIT'' @ post) then query
                       else rstrip_semicolon query @ '' LIMIT '' @ str_int limit)]"
proof -
  have "with_limit E query limit =
      (if (\<exists>pre post. str_upper E query = pre @ ''LIMIT'' @ post) then query
       else rstrip_semicolon query @ '' LIMIT '' @ str_int limit)"
    by (simp only: with_limit_def str_in_iff) simp
  moreover have "calls (snd (read_snowflake_data E query limit s)) =
      calls s @ [SfExecute (with_limit E query limit)]"
    using assms
    by (auto simp: read_snowflake_data_def read_snowflake_data_try_def logger_def called_def
          Let_def split: sum.splits)
  ultimately show ?thesis by simp
qed

text \<open>The two examples of the specification: a limit is added to the first query only.\<close>

lemma read_snowflake_data_sends_examples:
  "snowflake_conn opened = Some \<lparr>sf_insecure_mode = False, sf_status = Opened\<rparr>
   \<and> calls (snd (read_snowflake_data demo_env ''SELECT * FROM T'' 50 opened))
       = [SfExecute ''SELECT * FROM T LIMIT 50'']
   \<and> calls (snd (read_snowflake_data demo_env ''SELECT * FROM T limit 10'' 50 opened))
       = [SfExecute ''SELECT * FROM T limit 10'']"
proof -
  have h: "snowflake_conn opened = Some \<lparr>sf_insecure_mode = False, sf_status = Opened\<rparr>"
    by (simp add: opened_def fresh_def)
  have c: "calls opened = []" by (simp add: opened_def fresh_def)
  have n: "\<not> (\<exists>pre post. str_upper demo_env ''SELECT * FROM T'' = pre @ ''LIMIT'' @ post)"
    unfolding str_in_iff [symmetric] by (simp add: string_defs)
  have y: "\<exists>pre post. str_upper demo_env ''SELECT * FROM T limit 10'' = pre @ ''LIMIT'' @ post"
    unfolding str_in_iff [symmetric] by (simp add: string_defs)
  have e: "rstrip_semicolon ''SELECT * FROM T'' @ '' LIMIT '' @ str_int 50
      = ''SELECT * FROM T LIMIT 50''"
    by (simp add: string_defs)
  show ?thesis
    using read_snowflake_data_sends [OF h, of demo_env "''SELECT * FROM T''" 50]
      read_snowflake_data_sends [OF h, of demo_env "''SELECT * FROM T limit 10''" 50]
      h c n y e
    by simp
qed

text \<open>
  C5 at the query \<^verbatim>\<open>SELECT * FROM RATE_LIMITS\<close> with the limit 50. The comment above the
  test says that the limit is added to the query if not present, and this query has no
  row-limiting clause, while \<^verbatim>\<open>SELECT * FROM T limit 10\<close> has one. The letters LIMIT occur
  in its table name, so the test finds them and the query is sent without a limit.
\<close>

theorem read_snowflake_data_limit_in_identifier:
  "spec_has_limit_clause ''SELECT * FROM T limit 10''
   \<and> \<not> spec_has_limit_clause ''SELECT * FROM RATE_LIMITS''
   \<and> calls (snd (read_snowflake_data demo_env ''SELECT * FROM RATE_LIMITS'' 50 opened))
       = [SfExecute ''SELECT * FROM RATE_LIMITS'']"
  by (simp add: spec_has_limit_clause_def string_defs opened_def fresh_def
        read_snowflake_data_def read_snowflake_data_try_def logger_def called_def
        demo_env_def Let_def)

section \<open>ConnectionManager: the relaxed second attempt (C6)\<close>

text \<open>
  C6. \<open>connect_snowflake\<close> makes the strict attempt first. If it succeeds, no second
  attempt is made and no warning is logged. If it raises, a warning with the cause is
  logged and exactly one more attempt is made, with relaxed verification. The result is
  \<^verbatim>\<open>False\<close> only if both attempts raise. When the relaxed attempt succeeds, the session
  is the relaxed one, and the run returns what it returns, and leaves the store it
  leaves, when the strict attempt succeeds.
\<close>

theorem connect_snowflake_fallback:
  "fst (connect_snowflake E s) = (sf_connect_strict E = None \<or> sf_connect_relaxed E = None)
   \<and> calls (snd (connect_snowflake E s)) = calls s @
        (case sf_connect_strict E of
           None \<Rightarrow> [SfConnect False]
         | Some _ \<Rightarrow> [SfConnect False, SfConnect True])
   \<and> (\<forall>e. sf_connect_strict E = Some e \<longrightarrow>
          (WARNING, ''SSL connection failed: '' @ str_exn e)
            \<in> set (logs (snd (connect_snowflake E s))))
   \<and> (sf_connect_strict E = None \<longrightarrow>
          logs (snd (connect_snowflake E s)) =
            logs s @ [(INFO, ''Successfully connected to Snowflake with SSL verification'')]
          \<and> snowflake_conn (snd (connect_snowflake E s)) =
              Some \<lparr>sf_insecure_mode = False, sf_status = Opened\<rparr>)
   \<and> (sf_connect_strict E \<noteq> None \<and> sf_connect_relaxed E = None \<longrightarrow>
          snowflake_conn (snd (connect_snowflake E s)) =
            Some \<lparr>sf_insecure_mode = True, sf_status = Opened\<rparr>
          \<and> fst (run_pipeline E table_name custom_query limit s) =
              fst (run_pipeline (E\<lparr>sf_connect_strict := None\<rparr>) table_name custom_query limit s)
          \<and> store (snd (run_pipeline E table_name custom_query limit s)) =
              store (snd (run_pipeline (E\<lparr>sf_connect_strict := None\<rparr>)
                            table_name custom_query limit s)))"
proof -
  have a: "fst (connect_snowflake E s) = (sf_connect_strict E = None \<or> sf_connect_relaxed E = None)"
    by (auto simp: connect_snowflake_def Let_def split: option.splits)
  have b: "calls (snd (connect_snowflake E s)) = calls s @
        (case sf_connect_strict E of
           None \<Rightarrow> [SfConnect False]
         | Some _ \<Rightarrow> [SfConnect False, SfConnect True])"
    by (auto simp: connect_snowflake_def logger_def called_def Let_def split: option.splits)
  have c: "\<forall>e. sf_connect_strict E = Some e \<longrightarrow>
          (WARNING, ''SSL connection failed: '' @ str_exn e)
            \<in> set (logs (snd (connect_snowflake E s)))"
    by (auto simp: connect_snowflake_def logger_def called_def Let_def split: option.splits)
  have d: "sf_connect_strict E = None \<longrightarrow>
          logs (snd (connect_snowflake E s)) =
            logs s @ [(INFO, ''Successfully connected to Snowflake with SSL verification'')]
          \<and> snowflake_conn (snd (connect_snowflake E s)) =
              Some \<lparr>sf_insecure_mode = False, sf_status = Opened\<rparr>"
    by (auto simp: connect_snowflake_def logger_def called_def Let_def split: option.splits)
  have e1: "sf_connect_strict E \<noteq> None \<and> sf_connect_relaxed E = None \<longrightarrow>
          snowflake_conn (snd (connect_snowflake E s)) =
            Some \<lparr>sf_insecure_mode = True, sf_status = Opened\<rparr>"
    by (auto simp: connect_snowflake_def logger_def called_def Let_def split: option.splits)
  have e2: "sf_connect_relaxed E = None \<longrightarrow>
          run_result E table_name custom_query limit =
            run_result (E\<lparr>sf_connect_strict := None\<rparr>) table_name custom_query limit
          \<and> run_store E table_name custom_query limit (store s) =
            run_store (E\<lparr>sf_connect_strict := None\<rparr>) table_name custom_query limit (store s)"
  proof -
    let ?E = "E\<lparr>sf_connect_strict := None\<rparr>"
    have d1: "discovered ?E = discovered E" by (simp add: discovered_def)
    have r1: "resolved ?E table_name custom_query = resolved E table_name custom_query"
      by (auto simp: resolved_def d1 split: list.splits)
    have x1: "extracted ?E query limit = extracted E query limit" for query
      by (simp add: extracted_def with_limit_def)
    have t1: "run_target ?E table_name custom_query = run_target E table_name custom_query"
      by (simp add: run_target_def r1)
    have rr: "run_result E table_name custom_query limit =
        run_result ?E table_name custom_query limit" if "sf_connect_relaxed E = None"
      using that
      by (auto simp: run_result_def r1 x1 split: sum.splits prod.splits)
    show ?thesis
      unfolding run_store_def t1 using rr by simp
  qed
  show ?thesis
    using a b c d e1 e2 by (simp add: run_pipeline_eq)
qed

text \<open>
  The theorem where the strict attempt raises and the relaxed one succeeds: two
  attempts, a warning, and the run loads ORDERS.
\<close>

theorem connect_snowflake_fallback_witness:
  "sf_connect_strict fallback_env = Some (SnowflakeError ''certificate verify failed'')
   \<and> sf_connect_relaxed fallback_env = None
   \<and> fst (connect_snowflake fallback_env fresh) = True
   \<and> calls (snd (connect_snowflake fallback_env fresh)) = [SfConnect False, SfConnect True]
   \<and> (WARNING, ''SSL connection failed: certificate verify failed'')
        \<in> set (logs (snd (connect_snowflake fallback_env fresh)))
   \<and> fst (run_pipeline fallback_env (Some ''ORDERS'') None 1000 fresh) = Inr (Some orders)"
proof -
  have h: "sf_connect_strict fallback_env = Some (SnowflakeError ''certificate verify failed'')"
    "sf_connect_relaxed fallback_env = None"
    by (simp_all add: fallback_env_def demo_env_def)
  have u: "fallback_env\<lparr>sf_connect_strict := None\<rparr> = demo_env"
    by (simp add: fallback_env_def demo_env_def)
  have r: "fst (run_pipeline demo_env (Some ''ORDERS'') None 1000 fresh) = Inr (Some orders)"
    by (simp add: run_pipeline_eq summary_defs string_defs demo_env_def df_empty_def orders_def)
  have c: "calls fresh = []" by (simp add: fresh_def)
  show ?thesis
    using connect_snowflake_fallback [of fallback_env fresh "Some ''ORDERS''" None 1000] h u r c
    by simp
qed

section \<open>TableResolver: discovery (C7)\<close>



section \<open>Running the pipeline twice (C8)\<close>

text \<open>
  C8. Let a second run with the same arguments and the same surroundings start on any
  state whose store is the one the first run left (the same pipeline object, or a new
  one). Then the second run returns what the first returned, so the same frame with the
  same rows and columns, and it leaves the store exactly as the first run left it: the
  target table holds the rows of the frame once, and its row count is the row count of
  a single run.
\<close>

theorem run_pipeline_twice:
  assumes "store s2 = store (snd (run_pipeline E table_name custom_query limit s))"
  shows "fst (run_pipeline E table_name custom_query limit s2)
           = fst (run_pipeline E table_name custom_query limit s)
       \<and> store (snd (run_pipeline E table_name custom_query limit s2)) = store s2
       \<and> (\<forall>df. fst (run_pipeline E table_name custom_query limit s) = Inr (Some df) \<longrightarrow>
             store (snd (run_pipeline E table_name custom_query limit s2))
                   (run_target E table_name custom_query) = Some df
             \<and> map_option df_len (store (snd (run_pipeline E table_name custom_query limit s2))
                                        (run_target E table_name custom_query))
                 = Some (df_len df))"
proof -
  have st: "store s2 = run_store E table_name custom_query limit (store s)"
    using assms by (simp add: run_pipeline_eq)
  have idem: "run_store E table_name custom_query limit
                (run_store E table_name custom_query limit (store s))
              = run_store E table_name custom_query limit (store s)"
    by (simp add: run_store_def split: sum.splits option.splits)
  have tgt: "run_store E table_name custom_query limit (store s)
                (run_target E table_name custom_query) = Some df"
    if "run_result E table_name custom_query limit = Inr (Some df)" for df
    using that by (simp add: run_store_def)
  show ?thesis
    using st idem tgt by (simp add: run_pipeline_eq)
qed

text \<open>The theorem on two runs that load ORDERS, the second on a new pipeline object.\<close>

theorem run_pipeline_twice_witness:
  "store (DataPipeline_init (snd (run_pipeline demo_env (Some ''ORDERS'') None 1000 fresh)))
     = store (snd (run_pipeline demo_env (Some ''ORDERS'') None 1000 fresh))
   \<and> fst (run_pipeline demo_env (Some ''ORDERS'') None 1000 fresh) = Inr (Some orders)
   \<and> fst (run_pipeline demo_env (Some ''ORDERS'') None 1000
            (DataPipeline_init (snd (run_pipeline demo_env (Some ''ORDERS'') None 1000 fresh))))
       = Inr (Some orders)
   \<and> map_option df_len
        (store (snd (run_pipeline demo_env (Some ''ORDERS'') None 1000
            (DataPipeline_init (snd (run_pipeline demo_env (Some ''ORDERS'') None 1000 fresh)))))
           ''orders'') = Some 3"
proof -
  let ?s1 = "snd (run_pipeline demo_env (Some ''ORDERS'') None 1000 fresh)"
  have h: "store (DataPipeline_init ?s1) = store ?s1" by (simp add: DataPipeline_init_def)
  have r: "fst (run_pipeline demo_env (Some ''ORDERS'') None 1000 fresh) = Inr (Some orders)"
    by (simp add: run_pipeline_eq summary_defs string_defs demo_env_def df_empty_def orders_def)
  have tg: "run_target demo_env (Some ''ORDERS'') None = ''orders''"
    by (simp add: summary_defs string_defs)
  have l: "df_len orders = 3" by (simp add: df_len_def orders_def)
  let ?s2 = "snd (run_pipeline demo_env (Some ''ORDERS'') None 1000 (DataPipeline_init ?s1))"
  note twice = run_pipeline_twice [OF h]
  from twice r
  have a: "fst (run_pipeline demo_env (Some ''ORDERS'') None 1000 (DataPipeline_init ?s1))
      = Inr (Some orders)"
    by simp
  from twice r
  have "store ?s2 (run_target demo_env (Some ''ORDERS'') None) = Some orders"
    by blast
  then have b: "store ?s2 ''orders'' = Some orders" by (simp only: tg)
  have c: "map_option df_len (store ?s2 ''orders'') = Some 3"
    by (simp only: b option.map l)
  show ?thesis
    using h r a c by blast
qed

section \<open>An extraction without rows (C9)\<close>

text \<open>
  C9, as the code has it. Let both connections be established, let the resolver yield
  \<open>query\<close> and \<open>target\<close> (\<open>resolved\<close> is what \<open>determine_query\<close> returns on an open
  session, lemma \<open>determine_query_eq\<close>), and let the warehouse answer the query that is
  sent with \<open>results\<close>. If \<open>results\<close> has no row, \<open>read_snowflake_data\<close> returns the
  frame without rows and columns and raises nothing. If the frame is empty, the run
  raises nothing either, sends no statement to the local engine, leaves the store as it
  was and returns \<^verbatim>\<open>None\<close>, not the frame. If the frame is not empty and the engine
  accepts the target name, the run returns the extracted frame; and every frame a run
  returns is the extracted one and is not empty.
\<close>

theorem run_pipeline_empty_extraction:
  assumes "sf_connect_strict E = None \<or> sf_connect_relaxed E = None"
    and "duck_connect E = None"
    and "resolved E table_name custom_query = Inr (query, target)"
    and "sf_query E (with_limit E query limit) = Inr results"
  shows "(df_rows results = [] \<longrightarrow>
            (\<forall>s2. snowflake_conn s2 \<noteq> None \<longrightarrow>
                fst (read_snowflake_data E query limit s2) = Inr DataFrame_new))
       \<and> (df_empty results \<longrightarrow>
            fst (run_pipeline E table_name custom_query limit s) = Inr None
            \<and> store (snd (run_pipeline E table_name custom_query limit s)) = store s
            \<and> local_statements (calls (snd (run_pipeline E table_name custom_query limit s)))
                = local_statements (calls s))
       \<and> (\<not> df_empty results \<and> duck_accepts E (clean_table_name target) \<longrightarrow>
            fst (run_pipeline E table_name custom_query limit s) = Inr (Some results))
       \<and> (\<forall>df. fst (run_pipeline E table_name custom_query limit s) = Inr (Some df) \<longrightarrow>
            df = results \<and> \<not> df_empty df)"
proof -
  have pre: "\<not> (sf_connect_strict E \<noteq> None \<and> sf_connect_relaxed E \<noteq> None)"
    using assms(1) by auto
  have ex: "extracted E query limit = Inr (if df_rows results = [] then DataFrame_new else results)"
    using assms(4) by (simp add: extracted_def)
  have emp: "df_empty (if df_rows results = [] then DataFrame_new else results) = df_empty results"
    by (simp add: df_empty_def DataFrame_new_def)
  have rr: "run_result E table_name custom_query limit =
      (if df_empty results then Inr None
       else if duck_accepts E (clean_table_name target) then Inr (Some results)
       else Inl (DuckDBError (''Parser Error: '' @ clean_table_name target)))"
    using pre assms(2) assms(3) ex emp
    by (auto simp: run_result_def df_empty_def)
  have rs: "run_statements E table_name custom_query limit = []" if "df_empty results"
    using that pre assms(2) assms(3) ex emp by (auto simp: run_statements_def)
  have a: "df_rows results = [] \<longrightarrow>
            (\<forall>s2. snowflake_conn s2 \<noteq> None \<longrightarrow>
                fst (read_snowflake_data E query limit s2) = Inr DataFrame_new)"
  proof (intro impI allI)
    fix s2 :: state
    assume z: "df_rows results = []" and c: "snowflake_conn s2 \<noteq> None"
    obtain r s3 where rd: "read_snowflake_data E query limit s2 = (r, s3)"
      by (cases "read_snowflake_data E query limit s2")
    from read_snowflake_data_eq [OF c rd] ex z rd
    show "fst (read_snowflake_data E query limit s2) = Inr DataFrame_new" by simp
  qed
  have b: "df_empty results \<longrightarrow>
            fst (run_pipeline E table_name custom_query limit s) = Inr None
            \<and> store (snd (run_pipeline E table_name custom_query limit s)) = store s
            \<and> local_statements (calls (snd (run_pipeline E table_name custom_query limit s)))
                = local_statements (calls s)"
    using rr rs by (simp add: run_pipeline_eq run_store_def)
  have c: "\<not> df_empty results \<and> duck_accepts E (clean_table_name target) \<longrightarrow>
            fst (run_pipeline E table_name custom_query limit s) = Inr (Some results)"
    using rr by (simp add: run_pipeline_eq)
  have d: "\<forall>df. fst (run_pipeline E table_name custom_query limit s) = Inr (Some df) \<longrightarrow>
            df = results \<and> \<not> df_empty df"
    using rr by (auto simp: run_pipeline_eq split: if_splits)
  show ?thesis using a b c d by blast
qed

text \<open>The theorem on the table EMPTY_T, which has no rows.\<close>

theorem run_pipeline_empty_extraction_witness:
  "sf_connect_strict demo_env = None \<and> duck_connect demo_env = None
   \<and> resolved demo_env (Some ''EMPTY_T'') None = Inr (''SELECT * FROM EMPTY_T'', ''empty_t'')
   \<and> sf_query demo_env (with_limit demo_env ''SELECT * FROM EMPTY_T'' 1000) = Inr no_rows
   \<and> df_rows no_rows = []
   \<and> fst (read_snowflake_data demo_env ''SELECT * FROM EMPTY_T'' 1000 opened) = Inr DataFrame_new
   \<and> fst (run_pipeline demo_env (Some ''EMPTY_T'') None 1000 fresh) = Inr None
   \<and> store (snd (run_pipeline demo_env (Some ''EMPTY_T'') None 1000 fresh)) = store fresh
   \<and> local_statements (calls (snd (run_pipeline demo_env (Some ''EMPTY_T'') None 1000 fresh))) = []"
proof -
  have h1: "sf_connect_strict demo_env = None \<or> sf_connect_relaxed demo_env = None"
    and h1': "sf_connect_strict demo_env = None"
    and h2: "duck_connect demo_env = None"
    by (simp_all add: demo_env_def)
  have h3: "resolved demo_env (Some ''EMPTY_T'') None
      = Inr (''SELECT * FROM EMPTY_T'', ''empty_t'')"
    by (simp add: summary_defs string_defs)
  have h4: "sf_query demo_env (with_limit demo_env ''SELECT * FROM EMPTY_T'' 1000) = Inr no_rows"
    by (simp add: string_defs demo_env_def)
  have z: "df_rows no_rows = []" "df_empty no_rows"
    by (simp_all add: no_rows_def df_empty_def)
  have o: "snowflake_conn opened \<noteq> None" by (simp add: opened_def fresh_def)
  note inst = run_pipeline_empty_extraction [OF h1 h2 h3 h4, of fresh]
  from inst z(1) o
  have a: "fst (read_snowflake_data demo_env ''SELECT * FROM EMPTY_T'' 1000 opened)
      = Inr DataFrame_new"
    by blast
  from inst z(2)
  have b: "fst (run_pipeline demo_env (Some ''EMPTY_T'') None 1000 fresh) = Inr None"
    "store (snd (run_pipeline demo_env (Some ''EMPTY_T'') None 1000 fresh)) = store fresh"
    "local_statements (calls (snd (run_pipeline demo_env (Some ''EMPTY_T'') None 1000 fresh)))
       = local_statements (calls fresh)"
    by blast+
  show ?thesis
    using h1' h2 h3 h4 z(1) a b by (simp add: fresh_calls)
qed

text \<open>
  C9 as stated fails: the run on the table without rows completes without error, and
  what it returns is \<^verbatim>\<open>None\<close>, neither the empty frame nor the answer of the warehouse.
\<close>

theorem run_pipeline_empty_returns_none:
  "sf_query demo_env ''SELECT * FROM EMPTY_T LIMIT 1000'' = Inr no_rows
   \<and> df_rows no_rows = []
   \<and> fst (run_pipeline demo_env (Some ''EMPTY_T'') None 1000 fresh) = Inr None
   \<and> fst (run_pipeline demo_env (Some ''EMPTY_T'') None 1000 fresh) \<noteq> Inr (Some DataFrame_new)
   \<and> fst (run_pipeline demo_env (Some ''EMPTY_T'') None 1000 fresh) \<noteq> Inr (Some no_rows)"
  by (simp add: run_pipeline_eq summary_defs string_defs demo_env_def no_rows_def df_empty_def
        DataFrame_new_def)

section \<open>Table discovery never raises (C10)\<close>

text \<open>
  C10. \<open>get_snowflake_tables\<close> returns a list in every state and surroundings: the
  empty list when no remote session is set, when the discovery statement raises, and
  when a fetched row has no second field; the second fields of the rows otherwise.
  Hence, with both connections established and neither argument given, a run whose
  discovery raises fails with the exception \<^verbatim>\<open>No tables found in Snowflake schema\<close>,
  which is also what the same run returns on a schema without tables.
\<close>

theorem get_snowflake_tables_never_raises:
  "fst (get_snowflake_tables E s) =
     (case snowflake_conn s of
        None \<Rightarrow> []
      | Some _ \<Rightarrow>
          (case sf_show_tables E of
             Inl _ \<Rightarrow> []
           | Inr fetched \<Rightarrow> (case table_names fetched of Inl _ \<Rightarrow> [] | Inr tables \<Rightarrow> tables)))
   \<and> (\<forall>e. \<not> truthy table_name \<and> \<not> truthy custom_query
           \<and> (sf_connect_strict E = None \<or> sf_connect_relaxed E = None)
           \<and> duck_connect E = None \<and> sf_show_tables E = Inl e \<longrightarrow>
         fst (run_pipeline E table_name custom_query limit s)
           = Inl (Exception ''No tables found in Snowflake schema'')
         \<and> fst (run_pipeline E table_name custom_query limit s)
           = fst (run_pipeline (E\<lparr>sf_show_tables := Inr []\<rparr>) table_name custom_query limit s))"
proof -
  have a: "fst (get_snowflake_tables E s) =
     (case snowflake_conn s of
        None \<Rightarrow> []
      | Some _ \<Rightarrow>
          (case sf_show_tables E of
             Inl _ \<Rightarrow> []
           | Inr fetched \<Rightarrow> (case table_names fetched of Inl _ \<Rightarrow> [] | Inr tables \<Rightarrow> tables)))"
    by (auto simp: get_snowflake_tables_def get_snowflake_tables_try_def Let_def
          split: option.splits sum.splits)
  have b: "fst (run_pipeline E table_name custom_query limit s)
           = Inl (Exception ''No tables found in Snowflake schema'')
         \<and> fst (run_pipeline E table_name custom_query limit s)
           = fst (run_pipeline (E\<lparr>sf_show_tables := Inr []\<rparr>) table_name custom_query limit s)"
    if h: "\<not> truthy table_name \<and> \<not> truthy custom_query
           \<and> (sf_connect_strict E = None \<or> sf_connect_relaxed E = None)
           \<and> duck_connect E = None \<and> sf_show_tables E = Inl e" for e
  proof -
    let ?E = "E\<lparr>sf_show_tables := Inr []\<rparr>"
    have r1: "resolved E table_name custom_query
        = Inl (Exception ''No tables found in Snowflake schema'')"
      using h by (simp add: resolved_def discovered_def)
    have r2: "resolved ?E table_name custom_query
        = Inl (Exception ''No tables found in Snowflake schema'')"
      using h by (simp add: resolved_def discovered_def)
    have "run_result E table_name custom_query limit
        = Inl (Exception ''No tables found in Snowflake schema'')"
      using h r1 by (auto simp: run_result_def)
    moreover have "run_result ?E table_name custom_query limit
        = Inl (Exception ''No tables found in Snowflake schema'')"
      using h r2 by (auto simp: run_result_def)
    ultimately show ?thesis by (simp add: run_pipeline_eq)
  qed
  show ?thesis using a b by blast
qed

text \<open>
  The theorem without a session, with a discovery that raises, with a row of one field,
  and on the run whose discovery raises.
\<close>

theorem get_snowflake_tables_never_raises_witness:
  "snowflake_conn fresh = None \<and> fst (get_snowflake_tables demo_env fresh) = []
   \<and> sf_show_tables broken_discovery_env = Inl (SnowflakeError ''Insufficient privileges'')
   \<and> fst (get_snowflake_tables broken_discovery_env opened) = []
   \<and> fst (get_snowflake_tables (demo_env\<lparr>sf_show_tables := Inr [[''ORDERS'']]\<rparr>) opened) = []
   \<and> fst (run_pipeline broken_discovery_env None None 1000 fresh)
       = Inl (Exception ''No tables found in Snowflake schema'')
   \<and> fst (run_pipeline broken_discovery_env None None 1000 fresh)
       = fst (run_pipeline empty_schema_env None None 1000 fresh)"
proof -
  have f: "snowflake_conn fresh = None" by (simp add: fresh_def)
  have o: "snowflake_conn opened = Some \<lparr>sf_insecure_mode = False, sf_status = Opened\<rparr>"
    by (simp add: opened_def fresh_def)
  have d: "sf_show_tables broken_discovery_env = Inl (SnowflakeError ''Insufficient privileges'')"
    by (simp add: broken_discovery_env_def)
  have u: "broken_discovery_env\<lparr>sf_show_tables := Inr []\<rparr> = empty_schema_env"
    by (simp add: broken_discovery_env_def empty_schema_env_def)
  have h: "\<not> truthy None \<and> \<not> truthy None
      \<and> (sf_connect_strict broken_discovery_env = None \<or> sf_connect_relaxed broken_discovery_env = None)
      \<and> duck_connect broken_discovery_env = None
      \<and> sf_show_tables broken_discovery_env = Inl (SnowflakeError ''Insufficient privileges'')"
    by (simp add: truthy_def broken_discovery_env_def demo_env_def)
  have short: "table_names [[''ORDERS'']] = Inl (IndexError ''tuple index out of range'')"
    by (simp add: row_second_def)
  have a: "fst (get_snowflake_tables demo_env fresh) = []"
    using get_snowflake_tables_never_raises [of demo_env fresh None None 1000] f by simp
  have b: "fst (get_snowflake_tables broken_discovery_env opened) = []"
    using get_snowflake_tables_never_raises [of broken_discovery_env opened None None 1000] o d
    by simp
  have c: "fst (get_snowflake_tables (demo_env\<lparr>sf_show_tables := Inr [[''ORDERS'']]\<rparr>) opened) = []"
    using get_snowflake_tables_never_raises
            [of "demo_env\<lparr>sf_show_tables := Inr [[''ORDERS'']]\<rparr>" opened None None 1000] o short
    by simp
  from get_snowflake_tables_never_raises [of broken_discovery_env fresh None None 1000] h
  have e: "fst (run_pipeline broken_discovery_env None None 1000 fresh)
       = Inl (Exception ''No tables found in Snowflake schema'')"
    "fst (run_pipeline broken_discovery_env None None 1000 fresh)
       = fst (run_pipeline (broken_discovery_env\<lparr>sf_show_tables := Inr []\<rparr>) None None 1000 fresh)"
    by blast+
  show ?thesis
    using f d a b c e(1) e(2) [unfolded u] by blast
qed

end
